theory Spec2Isabelle
  imports Complex_Main "HOL-Library.Word" "HOL-Library.Sublist"
begin

section \<open>JavaScript numbers and typed-array writes\<close>

text \<open>
  A JavaScript \<open>number\<close> is a finite double, a NaN or an infinity. Every finite double is
  a rational, so the finite values are embedded in \<open>rat\<close>; the sign of zero is not
  observable in any function modelled here.
\<close>

datatype jsnum = Num rat | NaN | PosInf | NegInf

text \<open>
  \<open>Math.round\<close>: the integer closest to the argument, ties towards plus infinity; NaN and
  the infinities are returned unchanged.
\<close>

fun Math_round :: "jsnum \<Rightarrow> jsnum" where
  "Math_round (Num q) = Num (of_int \<lfloor>q + 1 / 2\<rfloor>)"
| "Math_round NaN = NaN"
| "Math_round PosInf = PosInf"
| "Math_round NegInf = NegInf"

text \<open>
  The integer conversion that \<open>DataView.setUint8/16/32\<close> and \<open>setInt16\<close> apply to their
  value argument (ECMAScript ToUint8, ToUint16, ToInt16, ToUint32): a value that is not
  finite becomes 0, a finite value is truncated towards zero and taken modulo \<open>2 ^ n\<close>.
  ToInt16 stores the same sixteen bits as ToUint16.
\<close>

fun truncate_jsnum :: "jsnum \<Rightarrow> int" where
  "truncate_jsnum (Num q) = (if 0 \<le> q then \<lfloor>q\<rfloor> else \<lceil>q\<rceil>)"
| "truncate_jsnum NaN = 0"
| "truncate_jsnum PosInf = 0"
| "truncate_jsnum NegInf = 0"

definition ToUintN :: "nat \<Rightarrow> jsnum \<Rightarrow> int" where
  "ToUintN n v = truncate_jsnum v mod 2 ^ n"

type_synonym byte = "8 word"

text \<open>
  An \<open>ArrayBuffer\<close> seen through a \<open>DataView\<close> is a list of bytes. The multi-byte setters
  are only ever called with the little-endian flag \<open>true\<close>, and always inside the
  buffer, so the RangeError of an out-of-bounds offset is not a branch of the callers.
\<close>

definition setUint8 :: "nat \<Rightarrow> jsnum \<Rightarrow> byte list \<Rightarrow> byte list" where
  "setUint8 off v buf = buf[off := word_of_int (ToUintN 8 v)]"

definition setUint16 :: "nat \<Rightarrow> jsnum \<Rightarrow> byte list \<Rightarrow> byte list" where
  "setUint16 off v buf =
     (let n = ToUintN 16 v
      in buf[off := word_of_int (n mod 256), off + 1 := word_of_int (n div 256 mod 256)])"

definition setInt16 :: "nat \<Rightarrow> jsnum \<Rightarrow> byte list \<Rightarrow> byte list" where
  "setInt16 off v buf =
     (let n = ToUintN 16 v
      in buf[off := word_of_int (n mod 256), off + 1 := word_of_int (n div 256 mod 256)])"

definition setUint32 :: "nat \<Rightarrow> jsnum \<Rightarrow> byte list \<Rightarrow> byte list" where
  "setUint32 off v buf =
     (let n = ToUintN 32 v
      in buf[off := word_of_int (n mod 256),
             off + 1 := word_of_int (n div 256 mod 256),
             off + 2 := word_of_int (n div 65536 mod 256),
             off + 3 := word_of_int (n div 16777216 mod 256)])"

section \<open>protocol.ts: binary encoding of input events\<close>

definition OP_MOUSE_MOVE :: int where "OP_MOUSE_MOVE = 0x01"
definition OP_MOUSE_SCROLL :: int where "OP_MOUSE_SCROLL = 0x02"
definition OP_MOUSE_DOWN :: int where "OP_MOUSE_DOWN = 0x03"
definition OP_MOUSE_UP :: int where "OP_MOUSE_UP = 0x04"
definition OP_KEY_DOWN :: int where "OP_KEY_DOWN = 0x05"
definition OP_KEY_UP :: int where "OP_KEY_UP = 0x06"

definition createMessage :: "int \<Rightarrow> nat \<Rightarrow> byte list" where
  "createMessage opcode sz = setUint8 0 (Num (of_int opcode)) (replicate sz 0)"

definition encodeMouseMove :: "jsnum \<Rightarrow> jsnum \<Rightarrow> byte list" where
  "encodeMouseMove x y =
     setUint16 3 (Math_round y) (setUint16 1 (Math_round x) (createMessage OP_MOUSE_MOVE 5))"

definition encodeMouseScroll :: "jsnum \<Rightarrow> jsnum \<Rightarrow> byte list" where
  "encodeMouseScroll deltaX deltaY =
     setInt16 3 (Math_round deltaY)
       (setInt16 1 (Math_round deltaX) (createMessage OP_MOUSE_SCROLL 5))"

definition encodeMouseButton :: "jsnum \<Rightarrow> bool \<Rightarrow> byte list" where
  "encodeMouseButton button pressed =
     (let opcode = (if pressed then OP_MOUSE_DOWN else OP_MOUSE_UP)
      in setUint8 1 button (createMessage opcode 2))"

definition encodeKey :: "jsnum \<Rightarrow> bool \<Rightarrow> byte list" where
  "encodeKey keycode pressed =
     (let opcode = (if pressed then OP_KEY_DOWN else OP_KEY_UP)
      in setUint32 1 keycode (createMessage opcode 5))"

section \<open>protocol.ts: key and button tables\<close>

text \<open>
  \<open>KEYSYM_MAP\<close> is an object literal with distinct keys, read only by property lookup:
  an association list with \<open>map_of\<close>. The keys are values of \<open>KeyboardEvent.code\<close>.
  The platform defines the values of \<open>code\<close>, and none of them names a property that an
  object literal inherits (\<open>constructor\<close>, \<open>toString\<close> and the like), so a lookup by a
  \<open>code\<close> finds the entries written here and nothing else.
\<close>

definition KEYSYM_MAP :: "(string \<times> int) list" where
  "KEYSYM_MAP =
    [(''KeyA'', 0x61), (''KeyB'', 0x62), (''KeyC'', 0x63), (''KeyD'', 0x64), (''KeyE'', 0x65),
     (''KeyF'', 0x66), (''KeyG'', 0x67), (''KeyH'', 0x68), (''KeyI'', 0x69), (''KeyJ'', 0x6a),
     (''KeyK'', 0x6b), (''KeyL'', 0x6c), (''KeyM'', 0x6d), (''KeyN'', 0x6e), (''KeyO'', 0x6f),
     (''KeyP'', 0x70), (''KeyQ'', 0x71), (''KeyR'', 0x72), (''KeyS'', 0x73), (''KeyT'', 0x74),
     (''KeyU'', 0x75), (''KeyV'', 0x76), (''KeyW'', 0x77), (''KeyX'', 0x78), (''KeyY'', 0x79),
     (''KeyZ'', 0x7a),
     (''Digit0'', 0x30), (''Digit1'', 0x31), (''Digit2'', 0x32), (''Digit3'', 0x33),
     (''Digit4'', 0x34), (''Digit5'', 0x35), (''Digit6'', 0x36), (''Digit7'', 0x37),
     (''Digit8'', 0x38), (''Digit9'', 0x39),
     (''F1'', 0xffbe), (''F2'', 0xffbf), (''F3'', 0xffc0), (''F4'', 0xffc1), (''F5'', 0xffc2),
     (''F6'', 0xffc3), (''F7'', 0xffc4), (''F8'', 0xffc5), (''F9'', 0xffc6), (''F10'', 0xffc7),
     (''F11'', 0xffc8), (''F12'', 0xffc9),
     (''Space'', 0x20),
     (''Enter'', 0xff0d),
     (''Tab'', 0xff09),
     (''Escape'', 0xff1b),
     (''Backspace'', 0xff08),
     (''Delete'', 0xffff),
     (''Insert'', 0xff63),
     (''Home'', 0xff50),
     (''End'', 0xff57),
     (''PageUp'', 0xff55),
     (''PageDown'', 0xff56),
     (''ArrowUp'', 0xff52),
     (''ArrowDown'', 0xff54),
     (''ArrowLeft'', 0xff51),
     (''ArrowRight'', 0xff53),
     (''ShiftLeft'', 0xffe1),
     (''ShiftRight'', 0xffe2),
     (''ControlLeft'', 0xffe3),
     (''ControlRight'', 0xffe4),
     (''AltLeft'', 0xffe9),
     (''AltRight'', 0xffea),
     (''MetaLeft'', 0xffeb),
     (''MetaRight'', 0xffec),
     (''CapsLock'', 0xffe5),
     (''Minus'', 0x2d),
     (''Equal'', 0x3d),
     (''BracketLeft'', 0x5b),
     (''BracketRight'', 0x5d),
     (''Backslash'', 0x5c),
     (''Semicolon'', 0x3b),
     (''Quote'', 0x27),
     (''Backquote'', 0x60),
     (''Comma'', 0x2c),
     (''Period'', 0x2e),
     (''Slash'', 0x2f)]"

text \<open>
  The three fields of a \<open>KeyboardEvent\<close> that \<open>getKeysym\<close> reads. A JavaScript string
  is a sequence of UTF-16 code units: \<open>key.length\<close> counts them and \<open>charCodeAt\<close>
  returns one, so \<open>key\<close> is a list of 16-bit words.
\<close>

record KeyboardEvent =
  code :: string
  key :: "16 word list"
  shiftKey :: bool

definition startsWith :: "string \<Rightarrow> string \<Rightarrow> bool" where
  "startsWith s p = (take (length p) s = p)"

definition endsWith :: "string \<Rightarrow> string \<Rightarrow> bool" where
  "endsWith s p = (length p \<le> length s \<and> drop (length s - length p) s = p)"

text \<open>
  The fallback of \<open>getKeysym\<close>, taken when the table has no (truthy) entry for the code.
\<close>

definition keyCharCode :: "KeyboardEvent \<Rightarrow> int option" where
  "keyCharCode event = (if length (key event) = 1 then Some (uint (key event ! 0)) else None)"

definition getKeysym :: "KeyboardEvent \<Rightarrow> int option" where
  "getKeysym event =
     (case map_of KEYSYM_MAP (code event) of
        None \<Rightarrow> keyCharCode event
      | Some keysym \<Rightarrow>
          if keysym = 0 then keyCharCode event
          else if startsWith (code event) ''Key'' \<and> shiftKey event then Some (keysym - 0x20)
          else Some keysym)"

text \<open>
  \<open>getMouseButton\<close> switches on a \<open>number\<close> with strict equality against the integer
  labels 0 to 4.
\<close>

definition getMouseButton :: "jsnum \<Rightarrow> int" where
  "getMouseButton button =
     (if button = Num 0 then 1
      else if button = Num 1 then 2
      else if button = Num 2 then 3
      else if button = Num 3 then 8
      else if button = Num 4 then 9
      else 1)"

section \<open>client.ts: the signaling endpoint\<close>

text \<open>
  \<open>url.replace(/\/$/, '')\<close>: the pattern has no flags, so \<open>$\<close> is the end of the input
  and at most the final character is removed.
\<close>

definition removeTrailingSlash :: "string \<Rightarrow> string" where
  "removeTrailingSlash url = (if url \<noteq> [] \<and> last url = CHR ''/'' then butlast url else url)"

text \<open>
  \<open>s.replace(pat, rep)\<close> with a string pattern replaces the first occurrence of \<open>pat\<close>;
  the replacement texts used here contain no \<open>$\<close> pattern.
\<close>

fun replace :: "string \<Rightarrow> string \<Rightarrow> string \<Rightarrow> string" where
  "replace [] pat rep = (if pat = [] then rep else [])"
| "replace (c # cs) pat rep =
     (if startsWith (c # cs) pat then rep @ drop (length pat) (c # cs)
      else c # replace cs pat rep)"

definition buildWebSocketUrl :: "string \<Rightarrow> string" where
  "buildWebSocketUrl url =
     (let cleanUrl = removeTrailingSlash url;
          cleanUrl =
            (if startsWith cleanUrl ''http://'' then replace cleanUrl ''http://'' ''ws://''
             else if startsWith cleanUrl ''https://'' then replace cleanUrl ''https://'' ''wss://''
             else if \<not> startsWith cleanUrl ''ws://'' \<and> \<not> startsWith cleanUrl ''wss://''
               then ''wss://'' @ cleanUrl
             else cleanUrl)
      in if \<not> endsWith cleanUrl ''/ws'' then cleanUrl @ ''/ws'' else cleanUrl)"

text \<open>
  The endpoint derivation as the specification words it, step by step: strip one trailing
  slash; a leading \<open>http://\<close> becomes \<open>ws://\<close> and a leading \<open>https://\<close> becomes
  \<open>wss://\<close>; with none of the four schemes in front, \<open>wss://\<close> is prefixed; \<open>/ws\<close> is
  appended exactly when it is not already the suffix.
\<close>

definition spec_stripSlash :: "string \<Rightarrow> string" where
  "spec_stripSlash a = (case rev a of [] \<Rightarrow> a | c # r \<Rightarrow> if c = CHR ''/'' then rev r else a)"

definition spec_mapScheme :: "string \<Rightarrow> string" where
  "spec_mapScheme a =
     (if prefix ''http://'' a then ''ws://'' @ drop 7 a
      else if prefix ''https://'' a then ''wss://'' @ drop 8 a
      else if prefix ''ws://'' a \<or> prefix ''wss://'' a then a
      else ''wss://'' @ a)"

definition spec_appendWs :: "string \<Rightarrow> string" where
  "spec_appendWs a = (if suffix ''/ws'' a then a else a @ ''/ws'')"

definition spec_endpoint :: "string \<Rightarrow> string" where
  "spec_endpoint a = spec_appendWs (spec_mapScheme (spec_stripSlash a))"

section \<open>The decoder of the wire format\<close>

datatype DecodeError = UnknownOpcode | Truncated

datatype InputEvent =
    MouseMove jsnum jsnum
  | MouseScroll jsnum jsnum
  | MouseButton jsnum bool
  | Key jsnum bool

text \<open>
  Modelled from the spec: \<open>encode(event) -> bytes\<close>. The repository has one encoding
  function per event kind and no function taking an \<open>InputEvent\<close>; \<open>encode\<close> selects
  the source's function for the kind of the event.
\<close>

definition encode :: "InputEvent \<Rightarrow> byte list" where
  "encode ev =
     (case ev of
        MouseMove x y \<Rightarrow> encodeMouseMove x y
      | MouseScroll dx dy \<Rightarrow> encodeMouseScroll dx dy
      | MouseButton b pressed \<Rightarrow> encodeMouseButton b pressed
      | Key k pressed \<Rightarrow> encodeKey k pressed)"

definition le_uint16 :: "byte \<Rightarrow> byte \<Rightarrow> int" where
  "le_uint16 b0 b1 = uint b0 + 256 * uint b1"

definition le_int16 :: "byte \<Rightarrow> byte \<Rightarrow> int" where
  "le_int16 b0 b1 = (let n = le_uint16 b0 b1 in if n < 32768 then n else n - 65536)"

definition le_uint32 :: "byte \<Rightarrow> byte \<Rightarrow> byte \<Rightarrow> byte \<Rightarrow> int" where
  "le_uint32 b0 b1 b2 b3 = uint b0 + 256 * uint b1 + 65536 * uint b2 + 16777216 * uint b3"

text \<open>
  Modelled from the spec: the fixed size of a message, opcode byte included, by the table
  of the wire format (opcodes 0x01 to 0x06); the repository has no such table.
\<close>

definition opcodeSize :: "int \<Rightarrow> nat option" where
  "opcodeSize opc =
     (if opc = 0x01 \<or> opc = 0x02 \<or> opc = 0x05 \<or> opc = 0x06 then Some 5
      else if opc = 0x03 \<or> opc = 0x04 then Some 2
      else None)"

text \<open>
  Modelled from the spec: \<open>decode(bytes) -> event | DecodeError\<close>. The repository has no
  decoder (the host decodes). The layout after the opcode byte is the one of the wire
  format table, little-endian; an unrecognised first byte is \<open>UnknownOpcode\<close>, a buffer
  shorter than the fixed size of its opcode is \<open>Truncated\<close> (so is the empty buffer).
\<close>

definition decode :: "byte list \<Rightarrow> DecodeError + InputEvent" where
  "decode buf =
     (case buf of
        [] \<Rightarrow> Inl Truncated
      | opc # _ \<Rightarrow>
         (case opcodeSize (uint opc) of
            None \<Rightarrow> Inl UnknownOpcode
          | Some n \<Rightarrow>
              if length buf < n then Inl Truncated
              else if uint opc = 0x01
                then Inr (MouseMove (Num (of_int (le_uint16 (buf ! 1) (buf ! 2))))
                                    (Num (of_int (le_uint16 (buf ! 3) (buf ! 4)))))
              else if uint opc = 0x02
                then Inr (MouseScroll (Num (of_int (le_int16 (buf ! 1) (buf ! 2))))
                                      (Num (of_int (le_int16 (buf ! 3) (buf ! 4)))))
              else if uint opc = 0x03 then Inr (MouseButton (Num (of_int (uint (buf ! 1)))) True)
              else if uint opc = 0x04 then Inr (MouseButton (Num (of_int (uint (buf ! 1)))) False)
              else if uint opc = 0x05
                then Inr (Key (Num (of_int (le_uint32 (buf ! 1) (buf ! 2) (buf ! 3) (buf ! 4)))) True)
              else Inr (Key (Num (of_int (le_uint32 (buf ! 1) (buf ! 2) (buf ! 3) (buf ! 4)))) False)))"

section \<open>client.ts: the data of a session\<close>

record NekoConfig =
  url :: string
  password :: "string option"
  displayName :: "string option"

record NekoState =
  connected :: bool
  connecting :: bool
  controlling :: bool
  videoWidth :: jsnum
  videoHeight :: jsnum
  error :: "string option"

text \<open>The calls of the \<open>NekoEvents\<close> callbacks, in the order in which they are made.\<close>

datatype callback =
    onConnected
  | onDisconnected string
  | onError string
  | onControlGranted
  | onControlReleased
  | onResize jsnum jsnum

text \<open>The documents that the client passes to \<open>send\<close>, by their \<open>event\<close> field.\<close>

datatype signal =
    member_identity string string
  | signal_candidate string
  | signal_answer string
  | control_request
  | control_release

text \<open>
  A parsed inbound document: the \<open>event\<close> discriminant and the fields that the handlers
  read (\<open>id\<close>, \<open>width\<close>, \<open>height\<close>, \<open>sdp\<close>, \<open>candidate\<close>, \<open>iceServers\<close>).
\<close>

record Message =
  m_event :: string
  m_id :: string
  m_width :: jsnum
  m_height :: jsnum
  m_sdp :: string
  m_candidate :: "string option"
  m_iceServers :: "string list option"

datatype readyState = CONNECTING | OPEN | CLOSING | CLOSED

datatype connectionState =
  pc_new | pc_connecting | pc_connected | pc_disconnected | pc_failed | pc_closed

datatype settlement = Pending | Resolved | Rejected string

datatype caller = ByConnect | ByReconnect

text \<open>
  The objects of the platform that the client creates or receives. Each call of
  \<open>establishConnection\<close> creates one promise; the socket created in that call keeps, in
  the closures of its handlers, the \<open>resolve\<close> and \<open>reject\<close> of that promise
  (\<open>ws_promise\<close>), and so does the timeout timer. A promise made for \<open>connect\<close> is awaited
  inside its \<open>try\<close>; one made for an automatic reconnection only logs its rejection.
\<close>

record WebSocketObj =
  ws_url :: string
  ws_readyState :: readyState
  ws_sent :: "signal list"
  ws_promise :: nat

record PromiseObj =
  p_caller :: caller
  p_status :: settlement

record PeerObj =
  pc_iceServers :: "string list"
  pc_offer :: string
  pc_connectionState :: connectionState
  pc_candidates :: "string list"

record ChannelObj =
  dc_readyState :: readyState
  dc_sent :: "byte list list"

datatype timer =
    TimeoutTimer nat nat
  | ReconnectTimer nat

record TimerObj =
  t_timer :: timer
  t_fired :: bool

datatype closeCall = closeDataChannel nat | closePeer nat | closeSocket nat

text \<open>
  The fields of the \<open>NekoClient\<close> object (\<open>config\<close>, \<open>ws\<close>, \<open>pc\<close>, \<open>dataChannel\<close>,
  \<open>state\<close>, \<open>memberId\<close>, \<open>reconnectAttempts\<close>), with references as indices into
  the stores of platform objects, followed by those stores and by what an observer sees:
  the timers set, the callbacks called and the \<open>close()\<close> calls made, each in order.
  The video element and \<open>attachStream\<close> touch the page only and are left out.
\<close>

record NekoClient =
  config :: "NekoConfig option"
  ws :: "nat option"
  pc :: "nat option"
  dataChannel :: "nat option"
  state :: NekoState
  memberId :: string
  reconnectAttempts :: nat
  sockets :: "WebSocketObj list"
  promises :: "PromiseObj list"
  peers :: "PeerObj list"
  channels :: "ChannelObj list"
  timers :: "TimerObj list"
  emitted :: "callback list"
  closes :: "closeCall list"

definition maxReconnectAttempts :: nat where
  "maxReconnectAttempts = 5"

definition defaultState :: NekoState where
  "defaultState =
     \<lparr>connected = False, connecting = False, controlling = False,
      videoWidth = Num 1280, videoHeight = Num 720, error = None\<rparr>"

definition newClient :: NekoClient where
  "newClient =
     \<lparr>config = None, ws = None, pc = None, dataChannel = None, state = defaultState,
      memberId = [], reconnectAttempts = 0,
      sockets = [], promises = [], peers = [], channels = [], timers = [],
      emitted = [], closes = []\<rparr>"

section \<open>client.ts: the methods of the client\<close>

definition emit :: "callback \<Rightarrow> NekoClient \<Rightarrow> NekoClient" where
  "emit cb w = w\<lparr>emitted := emitted w @ [cb]\<rparr>"

text \<open>\<open>send\<close> and \<open>sendBinary\<close> transmit only on a channel that exists and is open.\<close>

definition send :: "signal \<Rightarrow> NekoClient \<Rightarrow> NekoClient" where
  "send message w =
     (case ws w of
        None \<Rightarrow> w
      | Some i \<Rightarrow>
          if i < length (sockets w) \<and> ws_readyState (sockets w ! i) = OPEN
          then w\<lparr>sockets := (sockets w)
                 [i := (sockets w ! i)\<lparr>ws_sent := ws_sent (sockets w ! i) @ [message]\<rparr>]\<rparr>
          else w)"

definition sendBinary :: "byte list \<Rightarrow> NekoClient \<Rightarrow> NekoClient" where
  "sendBinary data w =
     (case dataChannel w of
        None \<Rightarrow> w
      | Some d \<Rightarrow>
          if d < length (channels w) \<and> dc_readyState (channels w ! d) = OPEN
          then w\<lparr>channels := (channels w)
                 [d := (channels w ! d)\<lparr>dc_sent := dc_sent (channels w ! d) @ [data]\<rparr>]\<rparr>
          else w)"

text \<open>
  Settling a promise has an effect only while it is pending. The \<open>catch\<close> block of
  \<open>connect\<close> runs when the promise that \<open>connect\<close> awaits is rejected, before any other
  handler: it clears \<open>connecting\<close>, stores the message and calls \<open>onError\<close>.
\<close>

definition resolve :: "nat \<Rightarrow> NekoClient \<Rightarrow> NekoClient" where
  "resolve p w =
     (if p < length (promises w) \<and> p_status (promises w ! p) = Pending
      then w\<lparr>promises := (promises w)[p := (promises w ! p)\<lparr>p_status := Resolved\<rparr>]\<rparr>
      else w)"

definition connectCatch :: "string \<Rightarrow> NekoClient \<Rightarrow> NekoClient" where
  "connectCatch msg w =
     emit (onError msg) (w\<lparr>state := (state w)\<lparr>connecting := False, error := Some msg\<rparr>\<rparr>)"

definition reject :: "nat \<Rightarrow> string \<Rightarrow> NekoClient \<Rightarrow> NekoClient" where
  "reject p msg w =
     (if p < length (promises w) \<and> p_status (promises w ! p) = Pending
      then (let w' = w\<lparr>promises := (promises w)[p := (promises w ! p)\<lparr>p_status := Rejected msg\<rparr>]\<rparr>
            in if p_caller (promises w ! p) = ByConnect then connectCatch msg w' else w')
      else w)"

text \<open>
  The three \<open>close()\<close> calls of the platform: each is recorded, a data channel or socket
  that is not yet closed starts closing, a peer connection is closed at once.
\<close>

definition closing :: "readyState \<Rightarrow> readyState" where
  "closing r = (if r = CLOSED then CLOSED else CLOSING)"

definition channelClose :: "nat \<Rightarrow> NekoClient \<Rightarrow> NekoClient" where
  "channelClose d w =
     w\<lparr>channels := (channels w)
          [d := (channels w ! d)\<lparr>dc_readyState := closing (dc_readyState (channels w ! d))\<rparr>],
       closes := closes w @ [closeDataChannel d]\<rparr>"

definition peerClose :: "nat \<Rightarrow> NekoClient \<Rightarrow> NekoClient" where
  "peerClose p w =
     w\<lparr>peers := (peers w)[p := (peers w ! p)\<lparr>pc_connectionState := pc_closed\<rparr>],
       closes := closes w @ [closePeer p]\<rparr>"

definition socketClose :: "nat \<Rightarrow> NekoClient \<Rightarrow> NekoClient" where
  "socketClose i w =
     w\<lparr>sockets := (sockets w)
          [i := (sockets w ! i)\<lparr>ws_readyState := closing (ws_readyState (sockets w ! i))\<rparr>],
       closes := closes w @ [closeSocket i]\<rparr>"

definition cleanup :: "NekoClient \<Rightarrow> NekoClient" where
  "cleanup w =
     (let w1 = (case dataChannel w of
                  None \<Rightarrow> w
                | Some d \<Rightarrow> (channelClose d w)\<lparr>dataChannel := None\<rparr>);
          w2 = (case pc w1 of
                  None \<Rightarrow> w1
                | Some p \<Rightarrow> (peerClose p w1)\<lparr>pc := None\<rparr>);
          w3 = (case ws w2 of
                  None \<Rightarrow> w2
                | Some i \<Rightarrow> (socketClose i w2)\<lparr>ws := None\<rparr>)
      in w3)"

definition handleDisconnect :: "string \<Rightarrow> NekoClient \<Rightarrow> NekoClient" where
  "handleDisconnect reason w =
     (let wasConnected = connected (state w);
          w1 = w\<lparr>state := (state w)\<lparr>connected := False, connecting := False,
                                     controlling := False\<rparr>\<rparr>;
          w2 = (if wasConnected then emit (onDisconnected reason) w1 else w1);
          w3 = cleanup w2
      in if wasConnected \<and> config w3 \<noteq> None \<and> reconnectAttempts w3 < maxReconnectAttempts
         then (let n = reconnectAttempts w3 + 1
               in w3\<lparr>reconnectAttempts := n,
                     timers := timers w3 @ [\<lparr>t_timer = ReconnectTimer (2000 * n), t_fired = False\<rparr>]\<rparr>)
         else w3)"

text \<open>
  \<open>establishConnection\<close> makes a promise. Without a config it is rejected at once. The
  constructor \<open>new WebSocket(wsUrl)\<close> throws on an address the platform refuses, which
  rejects the promise before anything is stored; \<open>thrown\<close> is the message of that
  exception, \<open>None\<close> when the socket is created. Otherwise the socket is stored in \<open>ws\<close>
  and the timeout of 10000 ms is set.
\<close>

definition establishConnection :: "caller \<Rightarrow> string option \<Rightarrow> NekoClient \<Rightarrow> NekoClient" where
  "establishConnection who thrown w =
     (let p = length (promises w);
          w0 = w\<lparr>promises := promises w @ [\<lparr>p_caller = who, p_status = Pending\<rparr>]\<rparr>
      in case config w of
           None \<Rightarrow> reject p ''No config provided'' w0
         | Some c \<Rightarrow>
            (case thrown of
               Some msg \<Rightarrow> reject p msg w0
             | None \<Rightarrow>
                 w0\<lparr>ws := Some (length (sockets w)),
                    sockets := sockets w @
                      [\<lparr>ws_url = buildWebSocketUrl (url c), ws_readyState = CONNECTING,
                        ws_sent = [], ws_promise = p\<rparr>],
                    timers := timers w @
                      [\<lparr>t_timer = TimeoutTimer p 10000, t_fired = False\<rparr>]\<rparr>))"

definition disconnect :: "NekoClient \<Rightarrow> NekoClient" where
  "disconnect w = (cleanup (w\<lparr>config := None\<rparr>))\<lparr>state := defaultState\<rparr>"

definition connect :: "NekoConfig \<Rightarrow> string option \<Rightarrow> NekoClient \<Rightarrow> NekoClient" where
  "connect cfg thrown w =
     (let w1 = (if connecting (state w) \<or> connected (state w) then disconnect w else w);
          w2 = w1\<lparr>config := Some cfg,
                  state := (state w1)\<lparr>connecting := True, error := None\<rparr>,
                  reconnectAttempts := 0\<rparr>
      in establishConnection ByConnect thrown w2)"

definition requestControl :: "NekoClient \<Rightarrow> NekoClient" where
  "requestControl w = send control_request w"

definition releaseControl :: "NekoClient \<Rightarrow> NekoClient" where
  "releaseControl w =
     (let w1 = send control_release w
      in w1\<lparr>state := (state w1)\<lparr>controlling := False\<rparr>\<rparr>)"

definition sendMouseMove :: "jsnum \<Rightarrow> jsnum \<Rightarrow> NekoClient \<Rightarrow> NekoClient" where
  "sendMouseMove x y w =
     (if \<not> controlling (state w) then w else sendBinary (encodeMouseMove x y) w)"

definition sendMouseScroll :: "jsnum \<Rightarrow> jsnum \<Rightarrow> NekoClient \<Rightarrow> NekoClient" where
  "sendMouseScroll deltaX deltaY w =
     (if \<not> controlling (state w) then w else sendBinary (encodeMouseScroll deltaX deltaY) w)"

definition sendMouseButton :: "jsnum \<Rightarrow> bool \<Rightarrow> NekoClient \<Rightarrow> NekoClient" where
  "sendMouseButton button pressed w =
     (if \<not> controlling (state w) then w
      else (let mappedButton = getMouseButton button
            in sendBinary (encodeMouseButton (Num (of_int mappedButton)) pressed) w))"

definition sendKeyEvent :: "KeyboardEvent \<Rightarrow> bool \<Rightarrow> NekoClient \<Rightarrow> NekoClient" where
  "sendKeyEvent event pressed w =
     (if \<not> controlling (state w) then w
      else (case getKeysym event of
              None \<Rightarrow> w
            | Some keysym \<Rightarrow> sendBinary (encodeKey (Num (of_int keysym)) pressed) w))"

section \<open>client.ts: the handlers\<close>

text \<open>
  \<open>handleSignalProvide\<close> up to its first \<open>await\<close>: a peer connection is created with
  the ICE servers of the offer (or the default STUN server) and stored in \<open>pc\<close>, and the
  offer is handed to it. What follows the \<open>await\<close>s is \<open>offerAnswered\<close> below.
\<close>

definition handleSignalProvide :: "Message \<Rightarrow> NekoClient \<Rightarrow> NekoClient" where
  "handleSignalProvide sig w =
     (let iceServers = (case m_iceServers sig of
                          None \<Rightarrow> [''stun:stun.l.google.com:19302'']
                        | Some l \<Rightarrow> l)
      in w\<lparr>pc := Some (length (peers w)),
           peers := peers w @
             [\<lparr>pc_iceServers = iceServers, pc_offer = m_sdp sig,
               pc_connectionState = pc_new, pc_candidates = []\<rparr>]\<rparr>)"

definition handleSignalCandidate :: "Message \<Rightarrow> NekoClient \<Rightarrow> NekoClient" where
  "handleSignalCandidate sig w =
     (case pc w of
        None \<Rightarrow> w
      | Some p \<Rightarrow>
         (case m_candidate sig of
            None \<Rightarrow> w
          | Some c \<Rightarrow>
              w\<lparr>peers := (peers w)
                   [p := (peers w ! p)\<lparr>pc_candidates := pc_candidates (peers w ! p) @ [c]\<rparr>]\<rparr>))"

definition handleScreenResolution :: "Message \<Rightarrow> NekoClient \<Rightarrow> NekoClient" where
  "handleScreenResolution resolution w =
     emit (onResize (m_width resolution) (m_height resolution))
       (w\<lparr>state := (state w)\<lparr>videoWidth := m_width resolution,
                               videoHeight := m_height resolution\<rparr>\<rparr>)"

definition handleMessage :: "Message \<Rightarrow> NekoClient \<Rightarrow> NekoClient" where
  "handleMessage message w =
     (let event = m_event message
      in if event = ''signal/provide'' then handleSignalProvide message w
         else if event = ''signal/candidate'' then handleSignalCandidate message w
         else if event = ''member/identity'' then w\<lparr>memberId := m_id message\<rparr>
         else if event = ''screen/resolution'' then handleScreenResolution message w
         else if event = ''control/give''
           then emit onControlGranted (w\<lparr>state := (state w)\<lparr>controlling := True\<rparr>\<rparr>)
         else if event = ''control/release''
           then emit onControlReleased (w\<lparr>state := (state w)\<lparr>controlling := False\<rparr>\<rparr>)
         else w)"

text \<open>
  The rest of \<open>handleSignalProvide\<close> and of the \<open>onmessage\<close> handler of socket \<open>i\<close>, once
  the platform has produced the answer \<open>sdp\<close>: \<open>this.pc.createAnswer()\<close> throws when
  \<open>pc\<close> has been cleared meanwhile, and the handler then only logs; otherwise the answer
  is sent and the promise of socket \<open>i\<close> is resolved.
\<close>

definition offerAnswered :: "nat \<Rightarrow> string \<Rightarrow> NekoClient \<Rightarrow> NekoClient" where
  "offerAnswered i sdp w =
     (case pc w of
        None \<Rightarrow> w
      | Some p \<Rightarrow> resolve (ws_promise (sockets w ! i)) (send (signal_answer sdp) w))"

definition ws_onopen :: "NekoClient \<Rightarrow> NekoClient" where
  "ws_onopen w =
     (case config w of
        None \<Rightarrow> w
      | Some c \<Rightarrow>
         (case password c of
            None \<Rightarrow> w
          | Some pw \<Rightarrow>
              if pw = [] then w
              else send (member_identity
                           (case displayName c of
                              None \<Rightarrow> ''User''
                            | Some n \<Rightarrow> if n = [] then ''User'' else n)
                           pw) w))"

definition ws_onerror :: "nat \<Rightarrow> NekoClient \<Rightarrow> NekoClient" where
  "ws_onerror i w =
     reject (ws_promise (sockets w ! i)) ''WebSocket connection failed''
       (w\<lparr>state := (state w)\<lparr>error := Some ''WebSocket connection failed''\<rparr>\<rparr>)"

definition ws_onclose :: "string \<Rightarrow> NekoClient \<Rightarrow> NekoClient" where
  "ws_onclose reason w = handleDisconnect (if reason = [] then ''Connection closed'' else reason) w"

definition connectionTimeout :: "nat \<Rightarrow> NekoClient \<Rightarrow> NekoClient" where
  "connectionTimeout p w =
     (if connecting (state w) \<and> \<not> connected (state w) then reject p ''Connection timeout'' w
      else w)"

definition pc_onicecandidate :: "string \<Rightarrow> NekoClient \<Rightarrow> NekoClient" where
  "pc_onicecandidate candidate w = send (signal_candidate candidate) w"

text \<open>
  \<open>onconnectionstatechange\<close> reads the state of the peer connection that \<open>pc\<close> holds when
  the handler runs.
\<close>

definition pc_onconnectionstatechange :: "NekoClient \<Rightarrow> NekoClient" where
  "pc_onconnectionstatechange w =
     (case pc w of
        None \<Rightarrow> w
      | Some p \<Rightarrow>
         (case pc_connectionState (peers w ! p) of
            pc_connected \<Rightarrow>
              emit onConnected (w\<lparr>state := (state w)\<lparr>connected := True, connecting := False\<rparr>\<rparr>)
          | pc_disconnected \<Rightarrow> handleDisconnect ''WebRTC connection failed'' w
          | pc_failed \<Rightarrow> handleDisconnect ''WebRTC connection failed'' w
          | _ \<Rightarrow> w))"

section \<open>The event loop\<close>

text \<open>
  One callback runs at a time. An action is a call of the public interface or an event
  of the platform on an object it has created: a socket opens, delivers a parsed document,
  reports an error or closes; the answer to an offer is ready; a peer connection finds a
  candidate, receives a data channel or changes its connection state; a data channel
  changes its state; a timer fires. An event names its object by index and is ignored when
  no such object exists; a timer fires once. The platform is not constrained otherwise, so
  what holds for every run holds for every scheduling of the callbacks. Handlers that catch
  an exception and only log (a document that does not parse, a failing ICE candidate)
  change nothing and are not actions.
\<close>

datatype action =
    Connect NekoConfig "string option"
  | Disconnect
  | RequestControl
  | ReleaseControl
  | SendMouseMove jsnum jsnum
  | SendMouseScroll jsnum jsnum
  | SendMouseButton jsnum bool
  | SendKeyEvent KeyboardEvent bool
  | WsOpen nat
  | WsMessage nat Message
  | OfferAnswered nat string
  | WsError nat
  | WsClose nat string
  | IceCandidate nat string
  | DataChannel nat readyState
  | ChannelState nat readyState
  | ConnectionStateChange nat connectionState
  | TimerFires nat "string option"

definition fireTimer :: "nat \<Rightarrow> string option \<Rightarrow> NekoClient \<Rightarrow> NekoClient" where
  "fireTimer k thrown w =
     (if k < length (timers w) \<and> \<not> t_fired (timers w ! k)
      then (let w' = w\<lparr>timers := (timers w)[k := (timers w ! k)\<lparr>t_fired := True\<rparr>]\<rparr>
            in case t_timer (timers w ! k) of
                 TimeoutTimer p ms \<Rightarrow> connectionTimeout p w'
               | ReconnectTimer ms \<Rightarrow> establishConnection ByReconnect thrown w')
      else w)"

fun step :: "action \<Rightarrow> NekoClient \<Rightarrow> NekoClient" where
  "step (Connect cfg thrown) w = connect cfg thrown w"
| "step Disconnect w = disconnect w"
| "step RequestControl w = requestControl w"
| "step ReleaseControl w = releaseControl w"
| "step (SendMouseMove x y) w = sendMouseMove x y w"
| "step (SendMouseScroll dx dy) w = sendMouseScroll dx dy w"
| "step (SendMouseButton b pressed) w = sendMouseButton b pressed w"
| "step (SendKeyEvent ev pressed) w = sendKeyEvent ev pressed w"
| "step (WsOpen i) w =
     (if i < length (sockets w)
      then ws_onopen (w\<lparr>sockets := (sockets w)[i := (sockets w ! i)\<lparr>ws_readyState := OPEN\<rparr>]\<rparr>)
      else w)"
| "step (WsMessage i message) w = (if i < length (sockets w) then handleMessage message w else w)"
| "step (OfferAnswered i sdp) w = (if i < length (sockets w) then offerAnswered i sdp w else w)"
| "step (WsError i) w = (if i < length (sockets w) then ws_onerror i w else w)"
| "step (WsClose i reason) w =
     (if i < length (sockets w)
      then ws_onclose reason
             (w\<lparr>sockets := (sockets w)[i := (sockets w ! i)\<lparr>ws_readyState := CLOSED\<rparr>]\<rparr>)
      else w)"
| "step (IceCandidate p candidate) w =
     (if p < length (peers w) then pc_onicecandidate candidate w else w)"
| "step (DataChannel p r) w =
     (if p < length (peers w)
      then w\<lparr>dataChannel := Some (length (channels w)),
             channels := channels w @ [\<lparr>dc_readyState = r, dc_sent = []\<rparr>]\<rparr>
      else w)"
| "step (ChannelState d r) w =
     (if d < length (channels w)
      then w\<lparr>channels := (channels w)[d := (channels w ! d)\<lparr>dc_readyState := r\<rparr>]\<rparr>
      else w)"
| "step (ConnectionStateChange p c) w =
     (if p < length (peers w)
      then pc_onconnectionstatechange
             (w\<lparr>peers := (peers w)[p := (peers w ! p)\<lparr>pc_connectionState := c\<rparr>]\<rparr>)
      else w)"
| "step (TimerFires k thrown) w = fireTimer k thrown w"

fun run :: "action list \<Rightarrow> NekoClient \<Rightarrow> NekoClient" where
  "run [] w = w"
| "run (a # as) w = run as (step a w)"

section \<open>Notions used in the statements\<close>

definition exclusive :: "NekoClient \<Rightarrow> bool" where
  "exclusive w = (\<not> (connecting (state w) \<and> connected (state w)))"


definition channelOpen :: "NekoClient \<Rightarrow> bool" where
  "channelOpen w =
     (case dataChannel w of
        None \<Rightarrow> False
      | Some d \<Rightarrow> d < length (channels w) \<and> dc_readyState (channels w ! d) = OPEN)"


definition binarySent :: "NekoClient \<Rightarrow> byte list list list" where
  "binarySent w = map dc_sent (channels w)"





fun isReconnectTimer :: "timer \<Rightarrow> bool" where
  "isReconnectTimer (ReconnectTimer ms) = True"
| "isReconnectTimer (TimeoutTimer p ms) = False"

definition reconnectsScheduled :: "NekoClient \<Rightarrow> nat" where
  "reconnectsScheduled w = length (filter (\<lambda>t. isReconnectTimer (t_timer t)) (timers w))"


subsection \<open>Concrete sessions\<close>

definition exampleConfig :: NekoConfig where
  "exampleConfig =
     \<lparr>url = ''http://host:8080/'', password = Some ''secret'', displayName = None\<rparr>"

definition inbound :: "string \<Rightarrow> Message" where
  "inbound e =
     \<lparr>m_event = e, m_id = [], m_width = Num 0, m_height = Num 0, m_sdp = ''offer'',
      m_candidate = None, m_iceServers = None\<rparr>"

text \<open>\<open>connect\<close> has been called and the signaling channel is open; no offer yet.\<close>

definition pendingSession :: NekoClient where
  "pendingSession = run [Connect exampleConfig None, WsOpen 0] newClient"

text \<open>The host grants control while the connection is still being set up.\<close>

definition earlyGrant :: NekoClient where
  "earlyGrant = run [WsMessage 0 (inbound ''control/give'')] pendingSession"

text \<open>A session that is connected, with an open data channel and with control.\<close>

definition controllingSession :: NekoClient where
  "controllingSession =
     run [WsMessage 0 (inbound ''signal/provide''), OfferAnswered 0 ''answer'',
          DataChannel 0 OPEN, ConnectionStateChange 0 pc_connected,
          WsMessage 0 (inbound ''control/give'')] pendingSession"



section \<open>The wire codec\<close>

lemma ToUintN_round: "ToUintN n (Math_round (Num x)) = round x mod 2 ^ n"
  by (simp add: ToUintN_def round_def)

lemma le_uint16_bytes:
  "0 \<le> n \<Longrightarrow> n < 65536 \<Longrightarrow>
   le_uint16 (word_of_int (n mod 256)) (word_of_int (n div 256 mod 256)) = n"
  unfolding le_uint16_def by (simp add: uint_word_of_int take_bit_eq_mod)

lemma le_uint16_round:
  "le_uint16 (word_of_int (ToUintN 16 (Math_round (Num x)) mod 256))
     (word_of_int (ToUintN 16 (Math_round (Num x)) div 256 mod 256)) = round x mod 2 ^ 16"
proof -
  have b: "0 \<le> round x mod 2 ^ 16" "round x mod 2 ^ 16 < 65536" by simp_all
  show ?thesis unfolding ToUintN_round by (rule le_uint16_bytes [OF b])
qed

lemma encodeMouseMove_bytes:
  "encodeMouseMove x y =
     [1, word_of_int (ToUintN 16 (Math_round x) mod 256),
         word_of_int (ToUintN 16 (Math_round x) div 256 mod 256),
         word_of_int (ToUintN 16 (Math_round y) mod 256),
         word_of_int (ToUintN 16 (Math_round y) div 256 mod 256)]"
  by (simp add: encodeMouseMove_def createMessage_def setUint16_def setUint8_def
      OP_MOUSE_MOVE_def ToUintN_def eval_nat_numeral Let_def)


lemma mouse_move_roundtrip_example:
  "decode (encode (MouseMove (Num (65536 + 5 / 2)) (Num (- (5 / 4))))) =
     Inr (MouseMove (Num 3) (Num 65535))"
proof -
  have "round (65536 + 5 / 2 :: rat) = 65539" by (simp add: round_def)
  moreover have "round (- (5 / 4) :: rat) = - 1"
    unfolding round_def by (rule floor_unique) simp_all
  ultimately show ?thesis
    unfolding encode_def InputEvent.case encodeMouseMove_bytes
    by (simp add: decode_def opcodeSize_def le_uint16_round del: Math_round.simps)
qed

section \<open>The key and button tables\<close>





text \<open>
  C9. On every integer button index \<open>getMouseButton\<close> returns a code: 1 for index 0,
  2 for 1, 3 for 2, 8 for 3, 9 for 4, and the left button's code 1 for every other index.
\<close>

theorem getMouseButton_table:
  "getMouseButton (Num (of_int i)) =
     (if i = 0 then 1 else if i = 1 then 2 else if i = 2 then 3
      else if i = 3 then 8 else if i = 4 then 9 else 1)"
  by (simp add: getMouseButton_def)

lemma getMouseButton_not_integer:
  "getMouseButton NaN = 1" "getMouseButton PosInf = 1" "getMouseButton (Num (1 / 2)) = 1"
  by (simp_all add: getMouseButton_def)

section \<open>The signaling endpoint\<close>

lemma replace_prefix: "startsWith s p \<Longrightarrow> replace s p r = r @ drop (length p) s"
  by (cases s) (auto simp: startsWith_def)

lemma removeTrailingSlash_spec: "removeTrailingSlash a = spec_stripSlash a"
  unfolding removeTrailingSlash_def spec_stripSlash_def
  by (cases a rule: rev_cases) auto

lemma startsWith_prefix: "startsWith s p = prefix p s"
  by (metis startsWith_def prefix_def append_take_drop_id append_eq_conv_conj)

lemma endsWith_suffix: "endsWith s p = suffix p s"
  unfolding endsWith_def suffix_def
  by (metis append_eq_conv_conj append_take_drop_id diff_add_inverse2 length_append le_add2
      length_drop)

lemma replace_http:
  "prefix ''http://'' s \<Longrightarrow> replace s ''http://'' ''ws://'' = ''ws://'' @ drop 7 s"
  using replace_prefix [of s "''http://''" "''ws://''"]
  by (simp add: startsWith_prefix eval_nat_numeral)

lemma replace_https:
  "prefix ''https://'' s \<Longrightarrow> replace s ''https://'' ''wss://'' = ''wss://'' @ drop 8 s"
  using replace_prefix [of s "''https://''" "''wss://''"]
  by (simp add: startsWith_prefix eval_nat_numeral)

text \<open>
  C7. For every address, \<open>buildWebSocketUrl\<close> returns the endpoint that the
  specification derives: one trailing slash stripped, a leading \<open>http://\<close> replaced by
  \<open>ws://\<close> and a leading \<open>https://\<close> by \<open>wss://\<close>, \<open>wss://\<close> prefixed when none of the
  four schemes leads, and \<open>/ws\<close> appended exactly when it is not already the suffix.
\<close>

theorem buildWebSocketUrl_endpoint: "buildWebSocketUrl address = spec_endpoint address"
proof -
  let ?c = "spec_stripSlash address"
  have mid: "(if startsWith ?c ''http://'' then replace ?c ''http://'' ''ws://''
             else if startsWith ?c ''https://'' then replace ?c ''https://'' ''wss://''
             else if \<not> startsWith ?c ''ws://'' \<and> \<not> startsWith ?c ''wss://''
               then ''wss://'' @ ?c
             else ?c) = spec_mapScheme ?c"
    unfolding spec_mapScheme_def startsWith_prefix
    using replace_http replace_https by presburger
  show ?thesis
    unfolding buildWebSocketUrl_def spec_endpoint_def Let_def removeTrailingSlash_spec mid
    unfolding spec_appendWs_def endsWith_suffix by presburger
qed

lemma buildWebSocketUrl_examples:
  "buildWebSocketUrl ''http://host:8080/'' = ''ws://host:8080/ws''"
  "buildWebSocketUrl ''https://host'' = ''wss://host/ws''"
  "buildWebSocketUrl ''host/ws/'' = ''wss://host/ws''"
  "buildWebSocketUrl ''ws://host//'' = ''ws://host//ws''"
  by (simp_all add: buildWebSocketUrl_def removeTrailingSlash_def startsWith_def endsWith_def)

section \<open>What each method leaves unchanged\<close>

lemma emit_frame [simp]:
  "state (emit cb w) = state w" "config (emit cb w) = config w"
  "reconnectAttempts (emit cb w) = reconnectAttempts w" "timers (emit cb w) = timers w"
  "promises (emit cb w) = promises w" "sockets (emit cb w) = sockets w"
  "closes (emit cb w) = closes w" "emitted (emit cb w) = emitted w @ [cb]"
  "ws (emit cb w) = ws w" "pc (emit cb w) = pc w" "dataChannel (emit cb w) = dataChannel w"
  by (simp_all add: emit_def)

lemma send_frame [simp]:
  "state (send m w) = state w" "config (send m w) = config w"
  "reconnectAttempts (send m w) = reconnectAttempts w" "timers (send m w) = timers w"
  "promises (send m w) = promises w" "length (sockets (send m w)) = length (sockets w)"
  "closes (send m w) = closes w" "emitted (send m w) = emitted w"
  "ws (send m w) = ws w" "pc (send m w) = pc w" "dataChannel (send m w) = dataChannel w"
  by (simp_all add: send_def split: option.splits)


lemma send_open:
  "ws w = Some i \<Longrightarrow> i < length (sockets w) \<Longrightarrow> ws_readyState (sockets w ! i) = OPEN \<Longrightarrow>
   ws_sent (sockets (send m w) ! i) = ws_sent (sockets w ! i) @ [m]"
  by (simp add: send_def)

lemma sendBinary_closed: "\<not> channelOpen w \<Longrightarrow> sendBinary d w = w"
  by (auto simp: sendBinary_def channelOpen_def split: option.splits)

lemma resolve_frame [simp]:
  "state (resolve p w) = state w" "config (resolve p w) = config w"
  "reconnectAttempts (resolve p w) = reconnectAttempts w" "timers (resolve p w) = timers w"
  "sockets (resolve p w) = sockets w"
  "closes (resolve p w) = closes w" "emitted (resolve p w) = emitted w"
  by (simp_all add: resolve_def)

lemma reject_frame [simp]:
  "config (reject p m w) = config w"
  "reconnectAttempts (reject p m w) = reconnectAttempts w" "timers (reject p m w) = timers w"
  "sockets (reject p m w) = sockets w" "closes (reject p m w) = closes w"
  "connected (state (reject p m w)) = connected (state w)"
  "controlling (state (reject p m w)) = controlling (state w)"
  by (simp_all add: reject_def connectCatch_def Let_def)

lemma connecting_reject: "connecting (state (reject p m w)) \<Longrightarrow> connecting (state w)"
  by (simp add: reject_def connectCatch_def Let_def split: if_splits)

lemma cleanup_frame [simp]:
  "state (cleanup w) = state w" "config (cleanup w) = config w"
  "reconnectAttempts (cleanup w) = reconnectAttempts w" "timers (cleanup w) = timers w"
  "promises (cleanup w) = promises w" "length (sockets (cleanup w)) = length (sockets w)"
  "emitted (cleanup w) = emitted w"
  "ws (cleanup w) = None" "pc (cleanup w) = None" "dataChannel (cleanup w) = None"
  by (simp_all add: cleanup_def channelClose_def peerClose_def socketClose_def Let_def
      split: option.splits)

lemma cleanup_closes:
  "closes (cleanup w) = closes w
     @ (case dataChannel w of None \<Rightarrow> [] | Some d \<Rightarrow> [closeDataChannel d])
     @ (case pc w of None \<Rightarrow> [] | Some p \<Rightarrow> [closePeer p])
     @ (case ws w of None \<Rightarrow> [] | Some i \<Rightarrow> [closeSocket i])"
  by (simp add: cleanup_def channelClose_def peerClose_def socketClose_def Let_def
      split: option.splits)


lemma handleDisconnect_frame [simp]:
  "state (handleDisconnect r w) =
     (state w)\<lparr>connected := False, connecting := False, controlling := False\<rparr>"
  "config (handleDisconnect r w) = config w"
  "promises (handleDisconnect r w) = promises w"
  "length (sockets (handleDisconnect r w)) = length (sockets w)"
  "emitted (handleDisconnect r w) =
     (if connected (state w) then emitted w @ [onDisconnected r] else emitted w)"
  by (simp_all add: handleDisconnect_def Let_def)



lemma establishConnection_frame [simp]:
  "config (establishConnection who t w) = config w"
  "reconnectAttempts (establishConnection who t w) = reconnectAttempts w"
  "closes (establishConnection who t w) = closes w"
  "connected (state (establishConnection who t w)) = connected (state w)"
  "controlling (state (establishConnection who t w)) = controlling (state w)"
  by (simp_all add: establishConnection_def Let_def split: option.splits)

lemma connecting_establishConnection:
  "connecting (state (establishConnection who t w)) \<Longrightarrow> connecting (state w)"
  by (auto simp: establishConnection_def Let_def split: option.splits dest: connecting_reject)


lemma establishConnection_opens:
  "config w = Some c \<Longrightarrow>
   sockets (establishConnection who None w) = sockets w @
     [\<lparr>ws_url = buildWebSocketUrl (url c), ws_readyState = CONNECTING, ws_sent = [],
       ws_promise = length (promises w)\<rparr>]
   \<and> ws (establishConnection who None w) = Some (length (sockets w))"
  by (simp add: establishConnection_def Let_def)

lemma reconnectsScheduled_establishConnection [simp]:
  "reconnectsScheduled (establishConnection who t w) = reconnectsScheduled w"
  by (simp add: establishConnection_def Let_def reconnectsScheduled_def split: option.splits)

lemma disconnect_frame [simp]:
  "state (disconnect w) = defaultState" "config (disconnect w) = None"
  "reconnectAttempts (disconnect w) = reconnectAttempts w" "timers (disconnect w) = timers w"
  "promises (disconnect w) = promises w" "length (sockets (disconnect w)) = length (sockets w)"
  "emitted (disconnect w) = emitted w"
  "ws (disconnect w) = None" "pc (disconnect w) = None" "dataChannel (disconnect w) = None"
  by (simp_all add: disconnect_def)

lemma handleMessage_frame [simp]:
  "config (handleMessage m w) = config w"
  "reconnectAttempts (handleMessage m w) = reconnectAttempts w"
  "timers (handleMessage m w) = timers w"
  "promises (handleMessage m w) = promises w"
  "sockets (handleMessage m w) = sockets w"
  "connected (state (handleMessage m w)) = connected (state w)"
  "connecting (state (handleMessage m w)) = connecting (state w)"
  by (simp_all add: handleMessage_def handleSignalProvide_def handleSignalCandidate_def
      handleScreenResolution_def Let_def split: option.splits)

section \<open>The connection flags\<close>

lemma exclusive_step: "exclusive w \<Longrightarrow> exclusive (step a w)"
proof (cases a)
  case (Connect cfg t)
  then show ?thesis
    by (auto simp: exclusive_def connect_def Let_def defaultState_def)
next
  case (TimerFires k t)
  assume "exclusive w"
  then show ?thesis unfolding TimerFires
    by (auto simp: exclusive_def fireTimer_def connectionTimeout_def Let_def
        split: timer.splits dest!: connecting_reject connecting_establishConnection)
qed (auto simp: exclusive_def defaultState_def requestControl_def releaseControl_def
      sendMouseMove_def sendMouseScroll_def sendMouseButton_def sendKeyEvent_def Let_def
      sendBinary_def
      ws_onopen_def offerAnswered_def ws_onerror_def ws_onclose_def pc_onicecandidate_def
      pc_onconnectionstatechange_def
      split: option.splits connectionState.splits dest!: connecting_reject)

lemma exclusive_run: "exclusive w \<Longrightarrow> exclusive (run as w)"
  by (induction as arbitrary: w) (simp_all add: exclusive_step)

lemma exclusive_newClient: "exclusive newClient"
  by (simp add: exclusive_def newClient_def defaultState_def)

lemma ending_clears_control:
  "connected (state w) \<Longrightarrow> \<not> connected (state (step a w)) \<Longrightarrow> \<not> controlling (state (step a w))"
proof (cases a)
  case (Connect cfg t)
  assume "connected (state w)"
  then show ?thesis unfolding Connect by (simp add: connect_def Let_def defaultState_def)
next
  case (TimerFires k t)
  assume "connected (state w)" "\<not> connected (state (step a w))"
  then show ?thesis unfolding TimerFires
    by (auto simp: fireTimer_def connectionTimeout_def Let_def split: timer.splits if_splits)
qed (auto simp: defaultState_def requestControl_def releaseControl_def
      sendMouseMove_def sendMouseScroll_def sendMouseButton_def sendKeyEvent_def Let_def
      sendBinary_def
      ws_onopen_def offerAnswered_def ws_onerror_def ws_onclose_def pc_onicecandidate_def
      pc_onconnectionstatechange_def
      split: option.splits connectionState.splits if_splits)

section \<open>Automatic reconnection: counting\<close>




lemma reconnectsScheduled_same [simp]:
  "reconnectsScheduled (emit cb w) = reconnectsScheduled w"
  "reconnectsScheduled (send m w) = reconnectsScheduled w"
  "reconnectsScheduled (sendBinary d w) = reconnectsScheduled w"
  "reconnectsScheduled (resolve p w) = reconnectsScheduled w"
  "reconnectsScheduled (reject p msg w) = reconnectsScheduled w"
  "reconnectsScheduled (cleanup w) = reconnectsScheduled w"
  "reconnectsScheduled (disconnect w) = reconnectsScheduled w"
  "reconnectsScheduled (handleMessage message w) = reconnectsScheduled w"
  by (simp_all add: reconnectsScheduled_def sendBinary_def split: option.splits)

lemma sendBinary_frame [simp]:
  "state (sendBinary d w) = state w" "config (sendBinary d w) = config w"
  "reconnectAttempts (sendBinary d w) = reconnectAttempts w" "timers (sendBinary d w) = timers w"
  "promises (sendBinary d w) = promises w" "sockets (sendBinary d w) = sockets w"
  "closes (sendBinary d w) = closes w" "emitted (sendBinary d w) = emitted w"
  by (simp_all add: sendBinary_def split: option.splits)



lemma handleDisconnect_no_config:
  "config w = None \<Longrightarrow> timers (handleDisconnect r w) = timers w"
  by (simp add: handleDisconnect_def Let_def)










section \<open>Concrete sessions, evaluated\<close>

lemmas client_defs = emit_def send_def sendBinary_def resolve_def connectCatch_def reject_def
  closing_def channelClose_def peerClose_def socketClose_def cleanup_def handleDisconnect_def
  establishConnection_def disconnect_def connect_def requestControl_def releaseControl_def
  handleSignalProvide_def handleSignalCandidate_def handleScreenResolution_def handleMessage_def
  offerAnswered_def ws_onopen_def ws_onerror_def ws_onclose_def connectionTimeout_def
  pc_onicecandidate_def pc_onconnectionstatechange_def fireTimer_def newClient_def
  defaultState_def maxReconnectAttempts_def exampleConfig_def inbound_def Let_def

lemma exampleUrl: "buildWebSocketUrl ''http://host:8080/'' = ''ws://host:8080/ws''"
  by (simp add: buildWebSocketUrl_def removeTrailingSlash_def startsWith_def endsWith_def)

lemma pendingSession_value:
  "pendingSession =
    \<lparr>config = Some exampleConfig, ws = Some 0, pc = None, dataChannel = None,
     state = \<lparr>connected = False, connecting = True, controlling = False,
              videoWidth = Num 1280, videoHeight = Num 720, error = None\<rparr>,
     memberId = [], reconnectAttempts = 0,
     sockets = [\<lparr>ws_url = ''ws://host:8080/ws'', ws_readyState = OPEN,
                 ws_sent = [member_identity ''User'' ''secret''], ws_promise = 0\<rparr>],
     promises = [\<lparr>p_caller = ByConnect, p_status = Pending\<rparr>],
     peers = [], channels = [],
     timers = [\<lparr>t_timer = TimeoutTimer 0 10000, t_fired = False\<rparr>],
     emitted = [], closes = []\<rparr>"
  by (simp add: pendingSession_def client_defs exampleUrl)

lemma earlyGrant_value:
  "earlyGrant =
    \<lparr>config = Some exampleConfig, ws = Some 0, pc = None, dataChannel = None,
     state = \<lparr>connected = False, connecting = True, controlling = True,
              videoWidth = Num 1280, videoHeight = Num 720, error = None\<rparr>,
     memberId = [], reconnectAttempts = 0,
     sockets = [\<lparr>ws_url = ''ws://host:8080/ws'', ws_readyState = OPEN,
                 ws_sent = [member_identity ''User'' ''secret''], ws_promise = 0\<rparr>],
     promises = [\<lparr>p_caller = ByConnect, p_status = Pending\<rparr>],
     peers = [], channels = [],
     timers = [\<lparr>t_timer = TimeoutTimer 0 10000, t_fired = False\<rparr>],
     emitted = [onControlGranted], closes = []\<rparr>"
  by (simp add: earlyGrant_def pendingSession_value handleMessage_def emit_def inbound_def)

lemma controllingSession_value:
  "controllingSession =
    \<lparr>config = Some exampleConfig, ws = Some 0, pc = Some 0, dataChannel = Some 0,
     state = \<lparr>connected = True, connecting = False, controlling = True,
              videoWidth = Num 1280, videoHeight = Num 720, error = None\<rparr>,
     memberId = [], reconnectAttempts = 0,
     sockets = [\<lparr>ws_url = ''ws://host:8080/ws'', ws_readyState = OPEN,
                 ws_sent = [member_identity ''User'' ''secret'', signal_answer ''answer''],
                 ws_promise = 0\<rparr>],
     promises = [\<lparr>p_caller = ByConnect, p_status = Resolved\<rparr>],
     peers = [\<lparr>pc_iceServers = [''stun:stun.l.google.com:19302''], pc_offer = ''offer'',
               pc_connectionState = pc_connected, pc_candidates = []\<rparr>],
     channels = [\<lparr>dc_readyState = OPEN, dc_sent = []\<rparr>],
     timers = [\<lparr>t_timer = TimeoutTimer 0 10000, t_fired = False\<rparr>],
     emitted = [onConnected, onControlGranted], closes = []\<rparr>"
  by (simp add: controllingSession_def pendingSession_value handleMessage_def emit_def inbound_def
      handleSignalProvide_def offerAnswered_def send_def resolve_def pc_onconnectionstatechange_def)

text \<open>
  C1, as stated, fails: the handler of \<open>control/give\<close> sets \<open>controlling\<close> without
  looking at \<open>connected\<close>. After \<open>connect\<close>, the opening of the signaling channel and
  an inbound \<open>control/give\<close>, the client is controlling and not connected.
\<close>

theorem controlling_while_connecting:
  "earlyGrant =
     run [Connect exampleConfig None, WsOpen 0, WsMessage 0 (inbound ''control/give'')] newClient
   \<and> controlling (state earlyGrant) \<and> \<not> connected (state earlyGrant)"
proof -
  have a: "earlyGrant =
     run [Connect exampleConfig None, WsOpen 0, WsMessage 0 (inbound ''control/give'')] newClient"
    unfolding earlyGrant_def pendingSession_def by simp
  have b: "controlling (state earlyGrant) \<and> \<not> connected (state earlyGrant)"
    by (simp add: earlyGrant_value)
  from a b show ?thesis by (rule conjI)
qed

lemma grant_sets_control:
  "i < length (sockets w) \<Longrightarrow> m_event m = ''control/give'' \<Longrightarrow>
   controlling (state (step (WsMessage i m) w))"
  by (simp add: handleMessage_def)

text \<open>
  C1, amended. After any sequence of actions on a new client, \<open>connecting\<close> and
  \<open>connected\<close> are not both true. Every action that takes \<open>connected\<close> from true to
  false leaves \<open>controlling\<close> false. An inbound \<open>control/give\<close> sets \<open>controlling\<close> to
  true in every state, connected or not.
\<close>

theorem session_flags:
  "\<not> (connecting (state (run as newClient)) \<and> connected (state (run as newClient)))
   \<and> (connected (state w) \<and> \<not> connected (state (step a w)) \<longrightarrow>
        \<not> controlling (state (step a w)))
   \<and> (i < length (sockets w) \<and> m_event m = ''control/give'' \<longrightarrow>
        controlling (state (step (WsMessage i m) w)))"
proof -
  have "exclusive (run as newClient)" by (rule exclusive_run [OF exclusive_newClient])
  then have 1: "\<not> (connecting (state (run as newClient)) \<and> connected (state (run as newClient)))"
    by (simp add: exclusive_def)
  from 1 ending_clears_control [of w a] grant_sets_control [of i w m] show ?thesis by blast
qed

theorem session_flags_witness:
  "connected (state controllingSession)
   \<and> \<not> connected (state (step Disconnect controllingSession))
   \<and> \<not> controlling (state (step Disconnect controllingSession))
   \<and> 0 < length (sockets pendingSession)
   \<and> m_event (inbound ''control/give'') = ''control/give''
   \<and> controlling (state (step (WsMessage 0 (inbound ''control/give'')) pendingSession))
   \<and> \<not> (connecting (state (run [Connect exampleConfig None, WsOpen 0] newClient))
        \<and> connected (state (run [Connect exampleConfig None, WsOpen 0] newClient)))"
  using session_flags [of "[Connect exampleConfig None, WsOpen 0]" controllingSession Disconnect]
    session_flags [of "[]" pendingSession Disconnect 0 "inbound ''control/give''"]
  by (simp add: controllingSession_value pendingSession_value defaultState_def inbound_def)

section \<open>Disconnecting\<close>


lemma disconnect_closes:
  "closes (disconnect w) = closes w
     @ (case dataChannel w of None \<Rightarrow> [] | Some d \<Rightarrow> [closeDataChannel d])
     @ (case pc w of None \<Rightarrow> [] | Some p \<Rightarrow> [closePeer p])
     @ (case ws w of None \<Rightarrow> [] | Some i \<Rightarrow> [closeSocket i])"
  by (simp add: disconnect_def cleanup_closes)




lemma disconnect_example:
  "closes (disconnect controllingSession) = [closeDataChannel 0, closePeer 0, closeSocket 0]"
  by (simp add: disconnect_closes controllingSession_value)

section \<open>Releasing control\<close>





section \<open>Disconnecting while connecting\<close>



section \<open>Sending input\<close>

text \<open>
  C6. Each of \<open>sendMouseMove\<close>, \<open>sendMouseScroll\<close>, \<open>sendMouseButton\<close> and
  \<open>sendKeyEvent\<close> returns the client unchanged (state, channels and everything sent so
  far) when \<open>controlling\<close> is false, and also when \<open>controlling\<close> is true and the data
  channel is absent or not open.
\<close>

theorem input_dropped:
  "(\<not> controlling (state w) \<longrightarrow>
      sendMouseMove x y w = w \<and> sendMouseScroll dx dy w = w
      \<and> sendMouseButton b pressed w = w \<and> sendKeyEvent ev pressed w = w)
   \<and> (controlling (state w) \<and> \<not> channelOpen w \<longrightarrow>
      sendMouseMove x y w = w \<and> sendMouseScroll dx dy w = w
      \<and> sendMouseButton b pressed w = w \<and> sendKeyEvent ev pressed w = w)"
  by (simp add: sendMouseMove_def sendMouseScroll_def sendMouseButton_def sendKeyEvent_def
      sendBinary_closed Let_def split: option.splits)

theorem input_dropped_witness:
  "\<not> controlling (state newClient)
   \<and> sendMouseMove (Num 10) (Num 20) newClient = newClient
   \<and> sendMouseScroll (Num 0) (Num 3) newClient = newClient
   \<and> sendMouseButton (Num 0) True newClient = newClient
   \<and> sendKeyEvent \<lparr>code = ''KeyA'', key = [0x61], shiftKey = False\<rparr> True newClient = newClient
   \<and> controlling (state earlyGrant) \<and> \<not> channelOpen earlyGrant
   \<and> sendMouseMove (Num 10) (Num 20) earlyGrant = earlyGrant
   \<and> sendMouseScroll (Num 0) (Num 3) earlyGrant = earlyGrant
   \<and> sendMouseButton (Num 0) True earlyGrant = earlyGrant
   \<and> sendKeyEvent \<lparr>code = ''KeyA'', key = [0x61], shiftKey = False\<rparr> True earlyGrant = earlyGrant"
  using input_dropped [of newClient "Num 10" "Num 20" "Num 0" "Num 3" "Num 0" True
      "\<lparr>code = ''KeyA'', key = [0x61], shiftKey = False\<rparr>"]
    input_dropped [of earlyGrant "Num 10" "Num 20" "Num 0" "Num 3" "Num 0" True
      "\<lparr>code = ''KeyA'', key = [0x61], shiftKey = False\<rparr>"]
  by (simp add: earlyGrant_value channelOpen_def newClient_def defaultState_def)

lemma input_transmitted:
  "controlling (state w) \<Longrightarrow> dataChannel w = Some d \<Longrightarrow> channelOpen w \<Longrightarrow>
   binarySent (sendMouseMove x y w) = (binarySent w)[d := binarySent w ! d @ [encodeMouseMove x y]]"
  by (simp add: sendMouseMove_def sendBinary_def channelOpen_def binarySent_def map_update)

section \<open>Automatic reconnection\<close>




lemma reconnectsScheduled_fields [simp]:
  "reconnectsScheduled (w\<lparr>config := x\<rparr>) = reconnectsScheduled w"
  "reconnectsScheduled (w\<lparr>state := y\<rparr>) = reconnectsScheduled w"
  "reconnectsScheduled (w\<lparr>reconnectAttempts := z\<rparr>) = reconnectsScheduled w"
  by (simp_all add: reconnectsScheduled_def)










end
